theory Spec2Isabelle
  imports Complex_Main "HOL-Library.Word" "HOL-Library.Sublist"
begin

section \<open>JavaScript values\<close>

text \<open>
  The proxy handles values that come out of a JSON parser (request bodies, upstream
  bodies) and the values it builds from them. A JavaScript string is a sequence of
  UTF-16 code units. Numbers are kept exact where they are finite; the only thing the
  program asks of a number is whether it is truthy. An object is its list of own
  properties, read with \<open>map_of\<close> (the first binding of a key).
\<close>

type_synonym jsstring = "16 word list"

definition ustr :: "string \<Rightarrow> jsstring" where
  "ustr s = map of_char s"

datatype jsnum = Fin rat | PosInf | NegInf | NaN

datatype jsval =
    JUndefined
  | JNull
  | JBool bool
  | JNum jsnum
  | JStr jsstring
  | JArr "jsval list"
  | JObj "(jsstring \<times> jsval) list"

text \<open>
  Exceptions are values: a computation that may throw returns \<open>Inl\<close> of the exception,
  \<open>bind\<close> is sequencing, and \<open>try_catch\<close> is a \<open>try { ... } catch (err) { ... }\<close> block.
\<close>

datatype exn = TypeError | SyntaxError | FetchError

type_synonym 'a result = "exn + 'a"

definition bind :: "'a result \<Rightarrow> ('a \<Rightarrow> 'b result) \<Rightarrow> 'b result" where
  "bind m f = (case m of Inl e \<Rightarrow> Inl e | Inr x \<Rightarrow> f x)"

definition try_catch :: "'a result \<Rightarrow> (exn \<Rightarrow> 'a) \<Rightarrow> 'a" where
  "try_catch m h = (case m of Inl e \<Rightarrow> h e | Inr x \<Rightarrow> x)"

subsection \<open>Operators\<close>

definition nullish :: "jsval \<Rightarrow> bool" where
  "nullish v = (v = JUndefined \<or> v = JNull)"

text \<open>\<open>!v\<close> is \<open>\<not> truthy v\<close>.\<close>

fun truthy :: "jsval \<Rightarrow> bool" where
  "truthy JUndefined = False"
| "truthy JNull = False"
| "truthy (JBool b) = b"
| "truthy (JNum (Fin q)) = (q \<noteq> 0)"
| "truthy (JNum NaN) = False"
| "truthy (JNum _) = True"
| "truthy (JStr s) = (s \<noteq> [])"
| "truthy (JArr _) = True"
| "truthy (JObj _) = True"

fun js_typeof :: "jsval \<Rightarrow> string" where
  "js_typeof JUndefined = ''undefined''"
| "js_typeof JNull = ''object''"
| "js_typeof (JBool _) = ''boolean''"
| "js_typeof (JNum _) = ''number''"
| "js_typeof (JStr _) = ''string''"
| "js_typeof (JArr _) = ''object''"
| "js_typeof (JObj _) = ''object''"

text \<open>
  \<open>v.name\<close> for the names the program reads (\<open>text\<close>, \<open>output\<close>, \<open>candidates\<close>,
  \<open>content\<close>, \<open>prompt\<close>, \<open>model\<close>, \<open>fileBase64\<close>, \<open>mimeType\<close>, \<open>textParts\<close>,
  \<open>responseSchema\<close>): none of them is a property of a prototype, so only an object's own
  property answers, and reading from \<open>null\<close> or \<open>undefined\<close> throws.
\<close>

fun get_member :: "jsval \<Rightarrow> jsstring \<Rightarrow> jsval result" where
  "get_member JUndefined k = Inl TypeError"
| "get_member JNull k = Inl TypeError"
| "get_member (JObj kvs) k = Inr (case map_of kvs k of None \<Rightarrow> JUndefined | Some v \<Rightarrow> v)"
| "get_member _ k = Inr JUndefined"

text \<open>
  \<open>v[0]\<close>: the first element of an array, the first code unit of a string, the property
  \<open>"0"\<close> of an object.
\<close>

fun get_index0 :: "jsval \<Rightarrow> jsval result" where
  "get_index0 JUndefined = Inl TypeError"
| "get_index0 JNull = Inl TypeError"
| "get_index0 (JArr xs) = Inr (case xs of [] \<Rightarrow> JUndefined | x # _ \<Rightarrow> x)"
| "get_index0 (JStr s) = Inr (case s of [] \<Rightarrow> JUndefined | c # _ \<Rightarrow> JStr [c])"
| "get_index0 (JObj kvs) = Inr (case map_of kvs (ustr ''0'') of None \<Rightarrow> JUndefined | Some v \<Rightarrow> v)"
| "get_index0 _ = Inr JUndefined"

text \<open>Optional chaining: \<open>v?.name\<close> and \<open>v?.[0]\<close>.\<close>

definition opt_member :: "jsval \<Rightarrow> jsstring \<Rightarrow> jsval result" where
  "opt_member v k = (if nullish v then Inr JUndefined else get_member v k)"

definition opt_index0 :: "jsval \<Rightarrow> jsval result" where
  "opt_index0 v = (if nullish v then Inr JUndefined else get_index0 v)"

text \<open>\<open>a ?? b\<close> and \<open>a || b\<close>; the right operand is evaluated only when it is needed.\<close>

definition coalesce :: "jsval result \<Rightarrow> jsval result \<Rightarrow> jsval result" where
  "coalesce ma mb = bind ma (\<lambda>a. if nullish a then mb else Inr a)"

definition logical_or :: "jsval result \<Rightarrow> jsval result \<Rightarrow> jsval result" where
  "logical_or ma mb = bind ma (\<lambda>a. if truthy a then Inr a else mb)"

subsection \<open>Strings\<close>

text \<open>The code units that \<open>String.prototype.trim\<close> strips: white space and line terminators.\<close>

definition is_js_whitespace :: "16 word \<Rightarrow> bool" where
  "is_js_whitespace c =
     (c \<in> {0x9, 0xA, 0xB, 0xC, 0xD, 0x20, 0xA0, 0x1680, 0x2028, 0x2029, 0x202F, 0x205F,
            0x3000, 0xFEFF}
      \<or> (0x2000 \<le> c \<and> c \<le> 0x200A))"

definition trim :: "jsstring \<Rightarrow> jsstring" where
  "trim s = rev (dropWhile is_js_whitespace (rev (dropWhile is_js_whitespace s)))"

definition startsWith :: "jsstring \<Rightarrow> jsstring \<Rightarrow> bool" where
  "startsWith s p = (take (length p) s = p)"

text \<open>
  \<open>JSON.parse\<close> belongs to the runtime. The model takes it as the parameter \<open>parse\<close>,
  \<open>None\<close> where the runtime throws a \<open>SyntaxError\<close>.
\<close>

definition JSON_parse :: "(jsstring \<Rightarrow> jsval option) \<Rightarrow> jsstring \<Rightarrow> jsval result" where
  "JSON_parse parse s = (case parse s of None \<Rightarrow> Inl SyntaxError | Some v \<Rightarrow> Inr v)"

section \<open>Response Unwrapper\<close>

text \<open>The \<open>{raw, text, parsed}\<close> object.\<close>

record extraction =
  ex_raw :: jsval
  ex_text :: jsval
  ex_parsed :: jsval

text \<open>\<open>data?.key?.[0]?.content?.[0]?.text\<close>, for \<open>key\<close> one of \<open>output\<close>, \<open>candidates\<close>.\<close>

definition first_content_text :: "jsval \<Rightarrow> jsstring \<Rightarrow> jsval result" where
  "first_content_text data key =
     bind (opt_member data key) (\<lambda>a.
     bind (opt_index0 a) (\<lambda>b.
     bind (opt_member b (ustr ''content'')) (\<lambda>c.
     bind (opt_index0 c) (\<lambda>d.
     opt_member d (ustr ''text'')))))"

text \<open>
  The test \<open>trimmed.startsWith("{") || trimmed.startsWith("[")\<close>.
\<close>

definition looks_like_json :: "jsstring \<Rightarrow> bool" where
  "looks_like_json trimmed = (startsWith trimmed (ustr ''{'') \<or> startsWith trimmed (ustr ''[''))"

text \<open>The Process Server's \<open>extractGeminiOutput\<close>.\<close>

definition maybeText_server :: "jsval \<Rightarrow> jsval result" where
  "maybeText_server data =
     coalesce (opt_member data (ustr ''text''))
    (coalesce (first_content_text data (ustr ''output''))
    (coalesce (first_content_text data (ustr ''candidates''))
    (coalesce (first_content_text data (ustr ''candidates''))
    (coalesce (first_content_text data (ustr ''output''))
              (Inr JNull)))))"

definition extractGeminiOutput_server ::
  "(jsstring \<Rightarrow> jsval option) \<Rightarrow> jsval \<Rightarrow> extraction result" where
  "extractGeminiOutput_server parse data =
     (if \<not> truthy data then Inr \<lparr>ex_raw = data, ex_text = JNull, ex_parsed = JNull\<rparr>
      else
        bind (maybeText_server data) (\<lambda>maybeText.
        if \<not> truthy maybeText then Inr \<lparr>ex_raw = data, ex_text = JNull, ex_parsed = JNull\<rparr>
        else
          let parsed0 =
            (if js_typeof maybeText = ''string'' then
               (case maybeText of
                  JStr s \<Rightarrow>
                    let trimmed = trim s in
                    try_catch
                      (if looks_like_json trimmed then JSON_parse parse trimmed else Inr JNull)
                      (\<lambda>err. JNull)
                | _ \<Rightarrow> JNull)
             else JNull)
          in Inr \<lparr>ex_raw = data, ex_text = maybeText, ex_parsed = parsed0\<rparr>))"

text \<open>The generation handler's \<open>extractGeminiOutput\<close>.\<close>

definition maybeText_generate :: "jsval \<Rightarrow> jsval result" where
  "maybeText_generate data =
     coalesce (opt_member data (ustr ''text''))
    (coalesce (first_content_text data (ustr ''output''))
    (coalesce (first_content_text data (ustr ''candidates''))
              (Inr JNull)))"

definition extractGeminiOutput_generate ::
  "(jsstring \<Rightarrow> jsval option) \<Rightarrow> jsval \<Rightarrow> extraction result" where
  "extractGeminiOutput_generate parse data =
     bind (maybeText_generate data) (\<lambda>maybeText.
     let parsed0 =
       (if js_typeof maybeText = ''string'' then
          (case maybeText of
             JStr s \<Rightarrow>
               let trimmed = trim s in
               if looks_like_json trimmed then
                 try_catch (JSON_parse parse trimmed) (\<lambda>e. JNull)
               else JNull
           | _ \<Rightarrow> JNull)
        else JNull)
     in Inr \<lparr>ex_raw = data, ex_text = maybeText, ex_parsed = parsed0\<rparr>)"

text \<open>
  The document-analysis handler unwraps in line: the chain uses \<open>||\<close>, and the text
  handed to \<open>JSON.parse\<close> is the untrimmed one.
\<close>

definition maybeText_analyze :: "jsval \<Rightarrow> jsval result" where
  "maybeText_analyze data =
     logical_or (opt_member data (ustr ''text''))
    (logical_or (first_content_text data (ustr ''output''))
    (logical_or (first_content_text data (ustr ''candidates''))
                (Inr JNull)))"

definition extract_analyze ::
  "(jsstring \<Rightarrow> jsval option) \<Rightarrow> jsval \<Rightarrow> extraction result" where
  "extract_analyze parse data =
     bind (maybeText_analyze data) (\<lambda>maybeText.
     let parsed0 =
       (if truthy maybeText \<and> js_typeof maybeText = ''string'' then
          (case maybeText of
             JStr s \<Rightarrow>
               try_catch
                 (if looks_like_json (trim s) then JSON_parse parse s else Inr JNull)
                 (\<lambda>e. JNull)
           | _ \<Rightarrow> JNull)
        else JNull)
     in Inr \<lparr>ex_raw = data, ex_text = maybeText, ex_parsed = parsed0\<rparr>)"

section \<open>Requests, responses and the upstream call\<close>

record request =
  req_method :: jsstring
  req_body :: jsval

text \<open>
  What \<open>res.status(n).json(v)\<close> or \<open>res.status(n).end()\<close> sends: \<open>res_body\<close> is \<open>None\<close>
  for \<open>end()\<close>. The headers are those the handler sets itself with \<open>res.setHeader\<close>;
  what the Process Server's \<open>cors\<close> middleware adds and the lines written to the
  console are not part of the model.
\<close>

record response =
  res_headers :: "(string \<times> string) list"
  res_status :: nat
  res_body :: "jsval option"

definition json_response :: "(string \<times> string) list \<Rightarrow> nat \<Rightarrow> jsval \<Rightarrow> response" where
  "json_response hs n v = \<lparr>res_headers = hs, res_status = n, res_body = Some v\<rparr>"

text \<open>
  The call \<open>fetch(url, {method: "POST", ..., body: JSON.stringify(body)})\<close>. The URL is
  \<open>.../models/${model}:generateContent?key=${GEMINI_KEY}\<close>: the call records the two
  interpolated values and the value given to \<open>JSON.stringify\<close>.
\<close>

record upstream_call =
  call_model :: jsval
  call_key :: jsval
  call_body :: jsval

text \<open>
  The upstream's answer: its HTTP status and what \<open>r.json()\<close> resolves to, \<open>None\<close> where
  the body is not JSON and \<open>r.json()\<close> rejects. The network is the parameter \<open>fetch\<close>,
  \<open>None\<close> where the call itself fails.
\<close>

record upstream_response =
  up_status :: nat
  up_json :: "jsval option"

type_synonym fetcher = "upstream_call \<Rightarrow> upstream_response option"

definition do_fetch :: "fetcher \<Rightarrow> upstream_call \<Rightarrow> upstream_response result" where
  "do_fetch fetch c = (case fetch c of None \<Rightarrow> Inl FetchError | Some r \<Rightarrow> Inr r)"

definition json :: "upstream_response \<Rightarrow> jsval result" where
  "json r = (case up_json r of None \<Rightarrow> Inl SyntaxError | Some d \<Rightarrow> Inr d)"

text \<open>\<open>const { k = dflt } = obj\<close>: the default replaces \<open>undefined\<close> only.\<close>

definition destructure :: "jsval \<Rightarrow> jsstring \<Rightarrow> jsval \<Rightarrow> jsval result" where
  "destructure obj k dflt = bind (get_member obj k) (\<lambda>v. Inr (if v = JUndefined then dflt else v))"

text \<open>\<open>String(err)\<close>: the error's name; the engine's message after it is left out.\<close>

fun String_exn :: "exn \<Rightarrow> jsstring" where
  "String_exn TypeError = ustr ''TypeError''"
| "String_exn SyntaxError = ustr ''SyntaxError''"
| "String_exn FetchError = ustr ''FetchError''"

definition proxy_failed :: "(string \<times> string) list \<Rightarrow> exn \<Rightarrow> response" where
  "proxy_failed hs err =
     json_response hs 500
       (JObj [(ustr ''error'', JStr (ustr ''Proxy failed'')),
              (ustr ''details'', JStr (String_exn err))])"

definition error_response :: "(string \<times> string) list \<Rightarrow> nat \<Rightarrow> string \<Rightarrow> response" where
  "error_response hs n msg = json_response hs n (JObj [(ustr ''error'', JStr (ustr msg))])"

definition extraction_object :: "extraction \<Rightarrow> jsval" where
  "extraction_object e =
     JObj [(ustr ''raw'', ex_raw e), (ustr ''text'', ex_text e), (ustr ''parsed'', ex_parsed e)]"

text \<open>\<open>{ status: r.status, extracted, raw: data }\<close>.\<close>

definition envelope :: "nat \<Rightarrow> extraction \<Rightarrow> jsval \<Rightarrow> jsval" where
  "envelope st extracted data =
     JObj [(ustr ''status'', JNum (Fin (of_nat st))),
           (ustr ''extracted'', extraction_object extracted),
           (ustr ''raw'', data)]"

definition default_model :: jsval where
  "default_model = JStr (ustr ''gemini-2.5-flash'')"

text \<open>
  The tail that the four handlers share, from the \<open>fetch\<close> to the response:
  \<open>const r = await fetch(...); const data = await r.json();\<close>, the unwrapping, and
  \<open>res.status(r.status).json({ status: r.status, extracted, raw: data })\<close>.
\<close>

definition relay ::
  "(jsval \<Rightarrow> extraction result) \<Rightarrow> (string \<times> string) list \<Rightarrow> fetcher \<Rightarrow> upstream_call
     \<Rightarrow> response result" where
  "relay unwrap hs fetch call =
     bind (do_fetch fetch call) (\<lambda>r.
     bind (json r) (\<lambda>data.
     bind (unwrap data) (\<lambda>extracted.
     Inr (json_response hs (up_status r) (envelope (up_status r) extracted data)))))"

section \<open>Text Generation Proxy\<close>

definition generate_body :: "jsval \<Rightarrow> jsval" where
  "generate_body prompt =
     JObj [(ustr ''contents'',
              JArr [JObj [(ustr ''parts'', JArr [JObj [(ustr ''text'', prompt)]])]]),
           (ustr ''generationConfig'', JObj [(ustr ''temperature'', JNum (Fin (2 / 10)))])]"

text \<open>The Process Server's route \<open>POST /api/generate\<close>, given \<open>req.body\<close>.\<close>

definition generate_route ::
  "(jsstring \<Rightarrow> jsval option) \<Rightarrow> fetcher \<Rightarrow> jsval \<Rightarrow> jsval \<Rightarrow> response" where
  "generate_route parse fetch GEMINI_KEY body =
     try_catch
       (bind (get_member body (ustr ''prompt'')) (\<lambda>prompt.
        bind (destructure body (ustr ''model'') default_model) (\<lambda>model.
        if \<not> truthy prompt \<or> js_typeof prompt \<noteq> ''string'' then
          Inr (error_response [] 400 ''Missing 'prompt' string in request body.'')
        else
          relay (extractGeminiOutput_server parse) [] fetch
            \<lparr>call_model = model, call_key = GEMINI_KEY, call_body = generate_body prompt\<rparr>)))
       (proxy_failed [])"

text \<open>The environment: \<open>process.env.GEMINI_API_KEY\<close> and \<open>process.env.PORT\<close>.\<close>

record environment =
  GEMINI_API_KEY :: "jsstring option"
  PORT :: "jsstring option"

definition env_value :: "jsstring option \<Rightarrow> jsval" where
  "env_value v = (case v of None \<Rightarrow> JUndefined | Some s \<Rightarrow> JStr s)"

definition cors_headers :: "(string \<times> string) list" where
  "cors_headers =
     [(''Access-Control-Allow-Origin'', ''*''), (''Access-Control-Allow-Headers'', ''Content-Type'')]"

text \<open>The Stateless Handler of \<open>api/generate.js\<close>.\<close>

definition generate_handler ::
  "(jsstring \<Rightarrow> jsval option) \<Rightarrow> fetcher \<Rightarrow> environment \<Rightarrow> request \<Rightarrow> response" where
  "generate_handler parse fetch env req =
     (if req_method req = ustr ''OPTIONS'' then
        \<lparr>res_headers = cors_headers, res_status = 200, res_body = None\<rparr>
      else if req_method req \<noteq> ustr ''POST'' then
        error_response cors_headers 405 ''Method not allowed''
      else
        let GEMINI_KEY = env_value (GEMINI_API_KEY env) in
        if \<not> truthy GEMINI_KEY then error_response cors_headers 500 ''Missing GEMINI_API_KEY''
        else
          try_catch
            (bind (get_member (req_body req) (ustr ''prompt'')) (\<lambda>prompt.
             bind (destructure (req_body req) (ustr ''model'') default_model) (\<lambda>model.
             if \<not> truthy prompt then
               Inr (error_response cors_headers 400 ''Missing 'prompt' field'')
             else
               relay (extractGeminiOutput_generate parse) cors_headers fetch
                 \<lparr>call_model = model, call_key = GEMINI_KEY,
                  call_body = generate_body prompt\<rparr>)))
            (proxy_failed cors_headers))"

section \<open>Document Analysis Proxy\<close>

text \<open>The lines of a template literal, joined by line feeds.\<close>

fun join_lines :: "string list \<Rightarrow> string" where
  "join_lines [] = []"
| "join_lines [l] = l"
| "join_lines (l # ls) = l @ CHR 0x0A # join_lines ls"

definition promptText_server :: jsstring where
  "promptText_server = ustr (join_lines
     [''Analyze this Purchase Order. Extract ONLY these fields (return JSON matching the schema if possible):'',
      ''- customerInternalId'',
      ''- customerRequestDate'',
      ''- poNumber'',
      ''- shipToSelect'',
      ''- lineItems (array of { item, quantity })'',
      [],
      ''Return a pure JSON object only.''])"

definition promptText_handler :: jsstring where
  "promptText_handler = ustr (join_lines
     [''Analyze this Purchase Order. Extract ONLY these fields:'',
      ''- customerInternalId'',
      ''- customerRequestDate'',
      ''- poNumber'',
      ''- shipToSelect'',
      ''- lineItems (array of { item, quantity })'',
      ''Return a pure JSON object only.''])"

text \<open>
  \<open>Array.isArray(textParts) ? textParts.map(p => (typeof p === "string" ? { text: p } : p)) : []\<close>
\<close>

definition normalizedTextParts :: "jsval \<Rightarrow> jsval list" where
  "normalizedTextParts textParts =
     (case textParts of
        JArr ps \<Rightarrow> map (\<lambda>p. if js_typeof p = ''string'' then JObj [(ustr ''text'', p)] else p) ps
      | _ \<Rightarrow> [])"

text \<open>\<open>xs.map(f)\<close> where \<open>f\<close> may throw: the first exception ends the loop.\<close>

fun mapM :: "('a \<Rightarrow> 'b result) \<Rightarrow> 'a list \<Rightarrow> 'b list result" where
  "mapM f [] = Inr []"
| "mapM f (x # xs) = bind (f x) (\<lambda>y. bind (mapM f xs) (\<lambda>ys. Inr (y # ys)))"

text \<open>
  The array \<open>parts\<close>, the same expression on both surfaces. An element \<open>{ text: p.text }\<close>
  whose \<open>p.text\<close> is \<open>undefined\<close> keeps the property here; \<open>JSON.stringify\<close> drops it.
\<close>

definition analyze_parts :: "jsstring \<Rightarrow> jsval \<Rightarrow> jsval \<Rightarrow> jsval \<Rightarrow> jsval list result" where
  "analyze_parts promptText fileBase64 mimeType textParts =
     bind (mapM (\<lambda>p. bind (get_member p (ustr ''text'')) (\<lambda>t. Inr (JObj [(ustr ''text'', t)])))
             (normalizedTextParts textParts)) (\<lambda>texts.
     Inr (texts @
           [JObj [(ustr ''text'', JStr promptText)],
            JObj [(ustr ''inlineData'',
                   JObj [(ustr ''mimeType'', mimeType), (ustr ''data'', fileBase64)])]]))"

definition analyze_generationConfig :: "jsval \<Rightarrow> jsval" where
  "analyze_generationConfig responseSchema =
     JObj ([(ustr ''responseMimeType'', JStr (ustr ''application/json''))]
           @ (if truthy responseSchema then [(ustr ''responseSchema'', responseSchema)] else [])
           @ [(ustr ''temperature'', JNum (Fin (5 / 100)))])"

definition analyze_body :: "jsval list \<Rightarrow> jsval \<Rightarrow> jsval" where
  "analyze_body parts responseSchema =
     JObj [(ustr ''contents'', JArr [JObj [(ustr ''parts'', JArr parts)]]),
           (ustr ''generationConfig'', analyze_generationConfig responseSchema)]"

text \<open>
  The upstream call of a document-analysis request, or the response that ends the
  request before any call is made: the destructuring, the validation and the assembly
  of the body, which the two surfaces share but for the prompt.
\<close>

definition analyze_call ::
  "jsstring \<Rightarrow> (string \<times> string) list \<Rightarrow> jsval \<Rightarrow> jsval \<Rightarrow> (response + upstream_call) result" where
  "analyze_call promptText hs GEMINI_KEY body =
     bind (get_member body (ustr ''fileBase64'')) (\<lambda>fileBase64.
     bind (get_member body (ustr ''mimeType'')) (\<lambda>mimeType.
     bind (destructure body (ustr ''textParts'') (JArr [])) (\<lambda>textParts.
     bind (destructure body (ustr ''model'') default_model) (\<lambda>model.
     bind (destructure body (ustr ''responseSchema'') JNull) (\<lambda>responseSchema.
     if \<not> truthy fileBase64 \<or> \<not> truthy mimeType then
       Inr (Inl (error_response hs 400 ''Missing fileBase64 or mimeType in request body.''))
     else
       bind (analyze_parts promptText fileBase64 mimeType textParts) (\<lambda>parts.
       Inr (Inr \<lparr>call_model = model, call_key = GEMINI_KEY,
                 call_body = analyze_body parts responseSchema\<rparr>)))))))"

text \<open>The Process Server's route \<open>POST /api/analyzeDocument\<close>, given \<open>req.body\<close>.\<close>

definition analyzeDocument_route ::
  "(jsstring \<Rightarrow> jsval option) \<Rightarrow> fetcher \<Rightarrow> jsval \<Rightarrow> jsval \<Rightarrow> response" where
  "analyzeDocument_route parse fetch GEMINI_KEY body =
     try_catch
       (bind (analyze_call promptText_server [] GEMINI_KEY body) (\<lambda>c.
        case c of
          Inl early \<Rightarrow> Inr early
        | Inr call \<Rightarrow> relay (extractGeminiOutput_server parse) [] fetch call))
       (proxy_failed [])"

text \<open>The Stateless Handler of \<open>api/analyzeDocument.js\<close>.\<close>

definition analyzeDocument_handler ::
  "(jsstring \<Rightarrow> jsval option) \<Rightarrow> fetcher \<Rightarrow> environment \<Rightarrow> request \<Rightarrow> response" where
  "analyzeDocument_handler parse fetch env req =
     (if req_method req = ustr ''OPTIONS'' then
        \<lparr>res_headers = cors_headers, res_status = 200, res_body = None\<rparr>
      else if req_method req \<noteq> ustr ''POST'' then
        error_response cors_headers 405 ''Method not allowed''
      else
        let GEMINI_KEY = env_value (GEMINI_API_KEY env) in
        if \<not> truthy GEMINI_KEY then error_response cors_headers 500 ''GEMINI_API_KEY not set''
        else
          try_catch
            (bind (analyze_call promptText_handler cors_headers GEMINI_KEY (req_body req)) (\<lambda>c.
             case c of
               Inl early \<Rightarrow> Inr early
             | Inr call \<Rightarrow> relay (extract_analyze parse) cors_headers fetch call))
            (proxy_failed cors_headers))"

section \<open>Process Server\<close>

text \<open>
  Start-up: without a credential the process logs and exits with code 1; \<open>app.listen\<close>
  is the last statement of the file and is reached only otherwise.
\<close>

datatype startup = Exited nat | Listening jsval jsval

definition server_startup :: "environment \<Rightarrow> startup" where
  "server_startup env =
     (let PORT0 = (if truthy (env_value (PORT env)) then env_value (PORT env)
                   else JNum (Fin 4000));
          GEMINI_KEY = env_value (GEMINI_API_KEY env)
      in if \<not> truthy GEMINI_KEY then Exited 1 else Listening PORT0 GEMINI_KEY)"

datatype server_route = Health | Generate jsval | AnalyzeDocument jsval

text \<open>
  A request that matches one of the three routes is answered only by a process that
  is listening.
\<close>

definition process_server ::
  "(jsstring \<Rightarrow> jsval option) \<Rightarrow> fetcher \<Rightarrow> environment \<Rightarrow> server_route \<Rightarrow> response option" where
  "process_server parse fetch env route =
     (case server_startup env of
        Exited code \<Rightarrow> None
      | Listening port GEMINI_KEY \<Rightarrow>
          Some (case route of
                  Health \<Rightarrow> json_response [] 200 (JObj [(ustr ''ok'', JBool True)])
                | Generate body \<Rightarrow> generate_route parse fetch GEMINI_KEY body
                | AnalyzeDocument body \<Rightarrow> analyzeDocument_route parse fetch GEMINI_KEY body))"

section \<open>The specification's notions\<close>

text \<open>
  The value at a path such as \<open>output[0].content[0].text\<close>: \<open>undefined\<close> where a step
  of the path does not exist.
\<close>

fun path_member :: "jsval \<Rightarrow> jsstring \<Rightarrow> jsval" where
  "path_member (JObj kvs) k = (case map_of kvs k of None \<Rightarrow> JUndefined | Some v \<Rightarrow> v)"
| "path_member _ k = JUndefined"

fun path_first :: "jsval \<Rightarrow> jsval" where
  "path_first (JArr (x # _)) = x"
| "path_first (JStr (c # _)) = JStr [c]"
| "path_first (JObj kvs) = (case map_of kvs (ustr ''0'') of None \<Rightarrow> JUndefined | Some v \<Rightarrow> v)"
| "path_first _ = JUndefined"

text \<open>
  The three places where the text may be, in priority order: \<open>text\<close>,
  \<open>output[0].content[0].text\<close>, \<open>candidates[0].content[0].text\<close>.
\<close>

definition text_candidates :: "jsval \<Rightarrow> jsval list" where
  "text_candidates data =
     [path_member data (ustr ''text''),
      path_member (path_first (path_member (path_first (path_member data (ustr ''output'')))
                                 (ustr ''content''))) (ustr ''text''),
      path_member (path_first (path_member (path_first (path_member data (ustr ''candidates'')))
                                 (ustr ''content''))) (ustr ''text'')]"

text \<open>The first present (neither \<open>null\<close> nor \<open>undefined\<close>) candidate, else \<open>null\<close>.\<close>

definition first_present :: "jsval list \<Rightarrow> jsval" where
  "first_present cs = (case find (\<lambda>c. \<not> nullish c) cs of None \<Rightarrow> JNull | Some c \<Rightarrow> c)"

text \<open>The first truthy candidate, else \<open>null\<close>.\<close>

definition first_truthy :: "jsval list \<Rightarrow> jsval" where
  "first_truthy cs = (case find truthy cs of None \<Rightarrow> JNull | Some c \<Rightarrow> c)"

text \<open>The outcome of a parse attempt whose failure is swallowed.\<close>

definition parse_or_null :: "(jsstring \<Rightarrow> jsval option) \<Rightarrow> jsstring \<Rightarrow> jsval" where
  "parse_or_null parse s = (case parse s of None \<Rightarrow> JNull | Some v \<Rightarrow> v)"

text \<open>
  An element of \<open>textParts\<close> as the data model has it, a plain string or an object
  \<open>{text: ...}\<close>, and the part it stands for.
\<close>

fun is_text_part :: "jsval \<Rightarrow> bool" where
  "is_text_part (JStr s) = True"
| "is_text_part (JObj [(k, v)]) = (k = ustr ''text'')"
| "is_text_part _ = False"


definition own_keys :: "jsval \<Rightarrow> jsstring list" where
  "own_keys v = (case v of JObj kvs \<Rightarrow> map fst kvs | _ \<Rightarrow> [])"








text \<open>A response with a body that has no \<open>error\<close> field, and the two places of \<open>raw\<close>.\<close>

definition non_error :: "response \<Rightarrow> bool" where
  "non_error resp =
     (case res_body resp of None \<Rightarrow> False | Some b \<Rightarrow> path_member b (ustr ''error'') = JUndefined)"

definition top_raw :: "response \<Rightarrow> jsval" where
  "top_raw resp = (case res_body resp of None \<Rightarrow> JUndefined | Some b \<Rightarrow> path_member b (ustr ''raw''))"

definition nested_raw :: "response \<Rightarrow> jsval" where
  "nested_raw resp =
     (case res_body resp of
        None \<Rightarrow> JUndefined
      | Some b \<Rightarrow> path_member (path_member b (ustr ''extracted'')) (ustr ''raw''))"

definition has_error_field :: "response \<Rightarrow> bool" where
  "has_error_field resp =
     (case res_body resp of None \<Rightarrow> False | Some b \<Rightarrow> ustr ''error'' \<in> set (own_keys b))"




section \<open>Sample runtime\<close>

text \<open>
  \<open>JSON.parse\<close> on the texts of the examples: one object text; every other text that
  the examples hand to it is one that \<open>JSON.parse\<close> rejects.
\<close>

definition sample_parse :: "jsstring \<Rightarrow> jsval option" where
  \<open>sample_parse = [ustr ''{"a":1}'' \<mapsto> JObj [(ustr ''a'', JNum (Fin 1))]]\<close>

text \<open>An upstream that answers every call with one status and one JSON body.\<close>

definition fixed_upstream :: "nat \<Rightarrow> jsval \<Rightarrow> fetcher" where
  "fixed_upstream st data call = Some \<lparr>up_status = st, up_json = Some data\<rparr>"

definition hello_response :: jsval where
  "hello_response =
     JObj [(ustr ''candidates'',
            JArr [JObj [(ustr ''content'', JArr [JObj [(ustr ''text'', JStr (ustr ''hello''))]])]])]"

section \<open>The unwrappers as values\<close>

lemma opt_member_value: "opt_member v k = Inr (path_member v k)"
  by (cases v) (simp_all add: opt_member_def nullish_def)

lemma opt_index0_value: "opt_index0 v = Inr (path_first v)"
proof (cases v)
  case (JArr xs)
  then show ?thesis by (cases xs) (simp_all add: opt_index0_def nullish_def)
next
  case (JStr s)
  then show ?thesis by (cases s) (simp_all add: opt_index0_def nullish_def)
qed (simp_all add: opt_index0_def nullish_def)

lemma first_content_text_value:
  "first_content_text data key =
     Inr (path_member (path_first (path_member (path_first (path_member data key))
                                     (ustr ''content''))) (ustr ''text''))"
  by (simp add: first_content_text_def bind_def opt_member_value opt_index0_value)

lemma coalesce_Inr: "coalesce (Inr a) mb = (if nullish a then mb else Inr a)"
  by (simp add: coalesce_def bind_def)

lemma logical_or_Inr: "logical_or (Inr a) mb = (if truthy a then Inr a else mb)"
  by (simp add: logical_or_def bind_def)

lemma maybeText_generate_value:
  "maybeText_generate data = Inr (first_present (text_candidates data))"
  by (simp add: maybeText_generate_def first_content_text_value opt_member_value coalesce_Inr
      first_present_def text_candidates_def nullish_def)

lemma maybeText_server_value:
  "maybeText_server data = Inr (first_present (text_candidates data))"
  by (simp add: maybeText_server_def first_content_text_value opt_member_value coalesce_Inr
      first_present_def text_candidates_def nullish_def)

lemma maybeText_analyze_value:
  "maybeText_analyze data = Inr (first_truthy (text_candidates data))"
  by (simp add: maybeText_analyze_def first_content_text_value opt_member_value logical_or_Inr
      first_truthy_def text_candidates_def)

lemma extract_generate_value:
  "extractGeminiOutput_generate parse data =
     Inr \<lparr>ex_raw = data, ex_text = first_present (text_candidates data),
          ex_parsed =
            (case first_present (text_candidates data) of
               JStr s \<Rightarrow> if looks_like_json (trim s) then parse_or_null parse (trim s) else JNull
             | _ \<Rightarrow> JNull)\<rparr>"
  by (simp add: extractGeminiOutput_generate_def maybeText_generate_value bind_def Let_def
      parse_or_null_def try_catch_def JSON_parse_def split: jsval.splits option.splits)

lemma extract_server_value:
  "extractGeminiOutput_server parse data =
     Inr (if truthy data \<and> truthy (first_present (text_candidates data)) then
            \<lparr>ex_raw = data, ex_text = first_present (text_candidates data),
             ex_parsed =
               (case first_present (text_candidates data) of
                  JStr s \<Rightarrow> if looks_like_json (trim s) then parse_or_null parse (trim s) else JNull
                | _ \<Rightarrow> JNull)\<rparr>
          else \<lparr>ex_raw = data, ex_text = JNull, ex_parsed = JNull\<rparr>)"
  by (simp add: extractGeminiOutput_server_def maybeText_server_value bind_def Let_def
      parse_or_null_def try_catch_def JSON_parse_def split: jsval.splits option.splits)

lemma extract_analyze_value:
  "extract_analyze parse data =
     Inr \<lparr>ex_raw = data, ex_text = first_truthy (text_candidates data),
          ex_parsed =
            (case first_truthy (text_candidates data) of
               JStr s \<Rightarrow>
                 if s \<noteq> [] \<and> looks_like_json (trim s) then parse_or_null parse s else JNull
             | _ \<Rightarrow> JNull)\<rparr>"
  by (simp add: extract_analyze_def maybeText_analyze_value bind_def Let_def
      parse_or_null_def try_catch_def JSON_parse_def split: jsval.splits option.splits)

lemma falsy_no_candidates: "\<not> truthy data \<Longrightarrow> first_present (text_candidates data) = JNull"
  by (cases data) (simp_all add: first_present_def text_candidates_def nullish_def)

lemma looks_like_json_nonempty: "looks_like_json (trim s) \<Longrightarrow> s \<noteq> []"
  by (auto simp: looks_like_json_def startsWith_def trim_def ustr_def)

lemma hello_candidates:
  "text_candidates hello_response = [JUndefined, JUndefined, JStr (ustr ''hello'')]"
  by (simp add: text_candidates_def hello_response_def ustr_def)

lemma hello_plain: "\<not> looks_like_json (trim (ustr ''hello''))"
  by (simp add: looks_like_json_def startsWith_def trim_def ustr_def is_js_whitespace_def)

section \<open>Claims about the Response Unwrapper\<close>

text \<open>
  C1, as amended. The three unwrappers look at the same three places in the same
  priority order, but they do not choose alike. The generation handler's
  \<open>extractGeminiOutput\<close> returns as \<open>text\<close> the first candidate that is present (neither
  \<open>null\<close> nor \<open>undefined\<close>), falsy or not, and \<open>null\<close> when none is. The Process
  Server's \<open>extractGeminiOutput\<close> selects the same candidate and returns it when it is
  truthy; when it is falsy (the empty string, \<open>0\<close>, \<open>false\<close>) the \<open>text\<close> is \<open>null\<close>.
  The document-analysis handler returns the first truthy candidate, and \<open>null\<close> when
  none is truthy.
\<close>

theorem text_selection_by_surface:
  "(\<exists>r. extractGeminiOutput_generate parse data = Inr r
        \<and> ex_text r = first_present (text_candidates data))
   \<and> (\<exists>r. extractGeminiOutput_server parse data = Inr r
        \<and> ex_text r = (if truthy (first_present (text_candidates data))
                       then first_present (text_candidates data) else JNull))
   \<and> (\<exists>r. extract_analyze parse data = Inr r
        \<and> ex_text r = first_truthy (text_candidates data))"
  using falsy_no_candidates [of data]
  by (auto simp add: extract_generate_value extract_server_value extract_analyze_value)

text \<open>
  C1 as stated fails on the Process Server: for the upstream body \<open>{text: ""}\<close> the
  first present candidate is the empty string, and the \<open>text\<close> returned is \<open>null\<close>.
\<close>

theorem empty_text_is_dropped_by_server:
  "extractGeminiOutput_server sample_parse (JObj [(ustr ''text'', JStr [])])
     = Inr \<lparr>ex_raw = JObj [(ustr ''text'', JStr [])], ex_text = JNull, ex_parsed = JNull\<rparr>
   \<and> first_present (text_candidates (JObj [(ustr ''text'', JStr [])])) = JStr []
   \<and> JStr [] \<noteq> JNull"
  by (simp add: extract_server_value first_present_def text_candidates_def nullish_def)

text \<open>
  C2. Both \<open>extractGeminiOutput\<close> functions return a \<open>{raw, text, parsed}\<close> object for
  every input and every behaviour of \<open>JSON.parse\<close>, with \<open>raw\<close> the input; and when the
  located text is a string whose trimmed form starts with \<open>{\<close> or \<open>[\<close> and is rejected
  by \<open>JSON.parse\<close>, \<open>parsed\<close> is \<open>null\<close>.
\<close>

theorem unwrapper_never_raises:
  "(\<exists>r. extractGeminiOutput_server parse data = Inr r \<and> ex_raw r = data
        \<and> (\<forall>s. ex_text r = JStr s \<and> looks_like_json (trim s) \<and> parse (trim s) = None
               \<longrightarrow> ex_parsed r = JNull))
   \<and> (\<exists>r. extractGeminiOutput_generate parse data = Inr r \<and> ex_raw r = data
        \<and> (\<forall>s. ex_text r = JStr s \<and> looks_like_json (trim s) \<and> parse (trim s) = None
               \<longrightarrow> ex_parsed r = JNull))"
  by (auto simp add: extract_generate_value extract_server_value parse_or_null_def)

theorem unwrapper_never_raises_witness:
  "extractGeminiOutput_server sample_parse (JObj [(ustr ''text'', JStr (ustr ''{not json''))])
     = Inr \<lparr>ex_raw = JObj [(ustr ''text'', JStr (ustr ''{not json''))],
            ex_text = JStr (ustr ''{not json''), ex_parsed = JNull\<rparr>
   \<and> extractGeminiOutput_generate sample_parse (JObj [(ustr ''text'', JStr (ustr ''{not json''))])
     = Inr \<lparr>ex_raw = JObj [(ustr ''text'', JStr (ustr ''{not json''))],
            ex_text = JStr (ustr ''{not json''), ex_parsed = JNull\<rparr>
   \<and> looks_like_json (trim (ustr ''{not json''))
   \<and> sample_parse (trim (ustr ''{not json'')) = None"
proof -
  let ?d = "JObj [(ustr ''text'', JStr (ustr ''{not json''))]"
  have c: "first_present (text_candidates ?d) = JStr (ustr ''{not json'')"
    by (simp add: first_present_def text_candidates_def nullish_def)
  have l: "looks_like_json (trim (ustr ''{not json''))"
    by (simp add: looks_like_json_def startsWith_def trim_def ustr_def is_js_whitespace_def)
  have n: "sample_parse (trim (ustr ''{not json'')) = None"
    by (simp add: sample_parse_def trim_def ustr_def is_js_whitespace_def)
  from unwrapper_never_raises [of sample_parse ?d]
  obtain r g where
    r: "extractGeminiOutput_server sample_parse ?d = Inr r" "ex_raw r = ?d"
       "\<forall>s. ex_text r = JStr s \<and> looks_like_json (trim s) \<and> sample_parse (trim s) = None
            \<longrightarrow> ex_parsed r = JNull"
    and g: "extractGeminiOutput_generate sample_parse ?d = Inr g" "ex_raw g = ?d"
       "\<forall>s. ex_text g = JStr s \<and> looks_like_json (trim s) \<and> sample_parse (trim s) = None
            \<longrightarrow> ex_parsed g = JNull"
    by blast
  have tr: "ex_text r = JStr (ustr ''{not json'')"
    using r(1) c by (auto simp add: extract_server_value ustr_def split: if_splits)
  have tg: "ex_text g = JStr (ustr ''{not json'')"
    using g(1) c by (auto simp add: extract_generate_value)
  have "ex_parsed r = JNull" using r(3) tr l n by blast
  moreover have "ex_parsed g = JNull" using g(3) tg l n by blast
  ultimately have "r = \<lparr>ex_raw = ?d, ex_text = JStr (ustr ''{not json''), ex_parsed = JNull\<rparr>"
    and "g = \<lparr>ex_raw = ?d, ex_text = JStr (ustr ''{not json''), ex_parsed = JNull\<rparr>"
    using r(2) g(2) tr tg by simp_all
  with r(1) g(1) l n show ?thesis by simp
qed

text \<open>
  C6. When the text that an unwrapper returns is a string, \<open>JSON.parse\<close> is consulted
  exactly when the trimmed string starts with \<open>{\<close> or \<open>[\<close>: then \<open>parsed\<close> is what
  \<open>JSON.parse\<close> yields (the parsed value when the text is valid JSON, \<open>null\<close> when it is
  rejected), and otherwise \<open>parsed\<close> is \<open>null\<close> whatever \<open>JSON.parse\<close> would have
  answered. This holds of all three unwrappers: the two \<open>extractGeminiOutput\<close>
  functions parse the trimmed text, the document-analysis handler the text as found.
  For \<open>{candidates: [{content: [{text: "hello"}]}]}\<close> all three yield the text
  \<open>"hello"\<close> and \<open>parsed = null\<close>.
\<close>

theorem parse_only_what_looks_like_json:
  "(extractGeminiOutput_server parse data = Inr r \<and> ex_text r = JStr s
      \<longrightarrow> ex_parsed r =
            (if looks_like_json (trim s) then parse_or_null parse (trim s) else JNull))
   \<and> (extractGeminiOutput_generate parse data = Inr g \<and> ex_text g = JStr t
      \<longrightarrow> ex_parsed g =
            (if looks_like_json (trim t) then parse_or_null parse (trim t) else JNull))
   \<and> (extract_analyze parse data = Inr r' \<and> ex_text r' = JStr s'
      \<longrightarrow> ex_parsed r' =
            (if looks_like_json (trim s') then parse_or_null parse s' else JNull))
   \<and> extractGeminiOutput_server parse hello_response
       = Inr \<lparr>ex_raw = hello_response, ex_text = JStr (ustr ''hello''), ex_parsed = JNull\<rparr>
   \<and> extractGeminiOutput_generate parse hello_response
       = Inr \<lparr>ex_raw = hello_response, ex_text = JStr (ustr ''hello''), ex_parsed = JNull\<rparr>
   \<and> extract_analyze parse hello_response
       = Inr \<lparr>ex_raw = hello_response, ex_text = JStr (ustr ''hello''), ex_parsed = JNull\<rparr>"
proof (intro conjI impI)
  assume "extractGeminiOutput_server parse data = Inr r \<and> ex_text r = JStr s"
  then show "ex_parsed r =
      (if looks_like_json (trim s) then parse_or_null parse (trim s) else JNull)"
    by (auto simp add: extract_server_value split: if_splits)
next
  assume "extractGeminiOutput_generate parse data = Inr g \<and> ex_text g = JStr t"
  then show "ex_parsed g =
      (if looks_like_json (trim t) then parse_or_null parse (trim t) else JNull)"
    by (auto simp add: extract_generate_value)
next
  assume "extract_analyze parse data = Inr r' \<and> ex_text r' = JStr s'"
  then show "ex_parsed r' =
      (if looks_like_json (trim s') then parse_or_null parse s' else JNull)"
    using looks_like_json_nonempty [of s'] by (auto simp add: extract_analyze_value)
next
  have p: "first_present (text_candidates hello_response) = JStr (ustr ''hello'')"
    by (simp add: hello_candidates first_present_def nullish_def)
  have t: "truthy hello_response" "truthy (JStr (ustr ''hello''))"
    by (simp_all add: hello_response_def ustr_def)
  show "extractGeminiOutput_server parse hello_response
       = Inr \<lparr>ex_raw = hello_response, ex_text = JStr (ustr ''hello''), ex_parsed = JNull\<rparr>"
    using t by (simp add: extract_server_value p hello_plain)
next
  have p: "first_present (text_candidates hello_response) = JStr (ustr ''hello'')"
    by (simp add: hello_candidates first_present_def nullish_def)
  show "extractGeminiOutput_generate parse hello_response
       = Inr \<lparr>ex_raw = hello_response, ex_text = JStr (ustr ''hello''), ex_parsed = JNull\<rparr>"
    by (simp add: extract_generate_value p hello_plain)
next
  have p: "first_truthy (text_candidates hello_response) = JStr (ustr ''hello'')"
    by (simp add: hello_candidates first_truthy_def ustr_def)
  show "extract_analyze parse hello_response
       = Inr \<lparr>ex_raw = hello_response, ex_text = JStr (ustr ''hello''), ex_parsed = JNull\<rparr>"
    by (simp add: extract_analyze_value p hello_plain)
qed

theorem parse_only_what_looks_like_json_witness:
  \<open>extractGeminiOutput_server sample_parse (JObj [(ustr ''text'', JStr (ustr '' {"a":1} ''))])
     = Inr \<lparr>ex_raw = JObj [(ustr ''text'', JStr (ustr '' {"a":1} ''))],
            ex_text = JStr (ustr '' {"a":1} ''),
            ex_parsed = JObj [(ustr ''a'', JNum (Fin 1))]\<rparr>
   \<and> extractGeminiOutput_generate sample_parse (JObj [(ustr ''text'', JStr (ustr '' {"a":1} ''))])
     = Inr \<lparr>ex_raw = JObj [(ustr ''text'', JStr (ustr '' {"a":1} ''))],
            ex_text = JStr (ustr '' {"a":1} ''),
            ex_parsed = JObj [(ustr ''a'', JNum (Fin 1))]\<rparr>
   \<and> extract_analyze sample_parse (JObj [(ustr ''text'', JStr (ustr ''{"a":1}''))])
     = Inr \<lparr>ex_raw = JObj [(ustr ''text'', JStr (ustr ''{"a":1}''))],
            ex_text = JStr (ustr ''{"a":1}''),
            ex_parsed = JObj [(ustr ''a'', JNum (Fin 1))]\<rparr>\<close>
proof -
  let ?t = \<open>ustr '' {"a":1} ''\<close>
  let ?u = \<open>ustr ''{"a":1}''\<close>
  let ?d = "JObj [(ustr ''text'', JStr ?t)]"
  let ?e = "JObj [(ustr ''text'', JStr ?u)]"
  have tt: "trim ?t = ?u" "trim ?u = ?u"
    by (simp_all add: trim_def ustr_def is_js_whitespace_def)
  have l: "looks_like_json ?u"
    by (simp add: looks_like_json_def startsWith_def ustr_def)
  have v: "parse_or_null sample_parse ?u = JObj [(ustr ''a'', JNum (Fin 1))]"
    by (simp add: parse_or_null_def sample_parse_def)
  obtain r where r: "extractGeminiOutput_server sample_parse ?d = Inr r"
    by (simp add: extract_server_value)
  obtain g where g: "extractGeminiOutput_generate sample_parse ?d = Inr g"
    by (simp add: extract_generate_value)
  obtain q where q: "extract_analyze sample_parse ?e = Inr q"
    by (simp add: extract_analyze_value)
  have r1: "ex_raw r = ?d" "ex_text r = JStr ?t"
    using r by (auto simp add: extract_server_value first_present_def text_candidates_def
        nullish_def ustr_def split: if_splits)
  have g1: "ex_raw g = ?d" "ex_text g = JStr ?t"
    using g by (auto simp add: extract_generate_value first_present_def text_candidates_def
        nullish_def)
  have q1: "ex_raw q = ?e" "ex_text q = JStr ?u"
    using q by (auto simp add: extract_analyze_value first_truthy_def text_candidates_def ustr_def)
  from parse_only_what_looks_like_json [of sample_parse ?d r ?t] r r1
  have "ex_parsed r = JObj [(ustr ''a'', JNum (Fin 1))]"
    by (simp add: tt l v)
  moreover from parse_only_what_looks_like_json [of sample_parse ?d _ _ g ?t] g g1
  have "ex_parsed g = JObj [(ustr ''a'', JNum (Fin 1))]"
    by (simp add: tt l v)
  moreover from parse_only_what_looks_like_json [of sample_parse ?e _ _ _ _ q ?u] q q1
  have "ex_parsed q = JObj [(ustr ''a'', JNum (Fin 1))]"
    by (simp add: tt l v)
  moreover note r1 g1 q1
  ultimately
  have "r = \<lparr>ex_raw = ?d, ex_text = JStr ?t, ex_parsed = JObj [(ustr ''a'', JNum (Fin 1))]\<rparr>"
    and "g = \<lparr>ex_raw = ?d, ex_text = JStr ?t, ex_parsed = JObj [(ustr ''a'', JNum (Fin 1))]\<rparr>"
    and "q = \<lparr>ex_raw = ?e, ex_text = JStr ?u, ex_parsed = JObj [(ustr ''a'', JNum (Fin 1))]\<rparr>"
    by simp_all
  with r g q show ?thesis by simp
qed

section \<open>The handlers as values\<close>

lemma get_member_value: "\<not> nullish v \<Longrightarrow> get_member v k = Inr (path_member v k)"
  by (cases v) (simp_all add: nullish_def)

lemma destructure_value:
  "\<not> nullish v \<Longrightarrow>
   destructure v k d = Inr (if path_member v k = JUndefined then d else path_member v k)"
  by (simp add: destructure_def get_member_value bind_def)

lemma get_member_nullish: "nullish v \<Longrightarrow> get_member v k = Inl TypeError"
  by (auto simp: nullish_def)


lemma relay_unfold:
  "relay unwrap hs fetch c =
     (case fetch c of
        None \<Rightarrow> Inl FetchError
      | Some r \<Rightarrow>
          (case up_json r of
             None \<Rightarrow> Inl SyntaxError
           | Some data \<Rightarrow>
               (case unwrap data of
                  Inl e \<Rightarrow> Inl e
                | Inr ex \<Rightarrow>
                    Inr (json_response hs (up_status r) (envelope (up_status r) ex data)))))"
  by (simp add: relay_def do_fetch_def json_def bind_def split: option.splits sum.splits)

lemma relay_cases:
  assumes "\<And>d. \<exists>e. unwrap d = Inr e \<and> ex_raw e = d"
  shows "(\<exists>e. relay unwrap hs fetch c = Inl e)
       \<or> (\<exists>r data ex. fetch c = Some r \<and> up_json r = Some data \<and> ex_raw ex = data
             \<and> relay unwrap hs fetch c
                 = Inr (json_response hs (up_status r) (envelope (up_status r) ex data)))"
proof (cases "fetch c")
  case None
  then show ?thesis by (simp add: relay_unfold)
next
  case (Some r)
  show ?thesis
  proof (cases "up_json r")
    case None
    with Some show ?thesis by (simp add: relay_unfold)
  next
    case (Some data)
    from assms obtain ex where "unwrap data = Inr ex" "ex_raw ex = data" by blast
    with \<open>fetch c = Some r\<close> Some show ?thesis
      by (auto simp add: relay_unfold)
  qed
qed

lemma envelope_fields:
  "path_member (envelope st ex data) (ustr ''raw'') = data"
  "path_member (envelope st ex data) (ustr ''error'') = JUndefined"
  "path_member (path_member (envelope st ex data) (ustr ''extracted'')) (ustr ''raw'') = ex_raw ex"
  by (simp_all add: envelope_def extraction_object_def ustr_def)

lemma server_extract_total: "\<exists>e. extractGeminiOutput_server parse d = Inr e \<and> ex_raw e = d"
  by (simp add: extract_server_value)

lemma generate_extract_total: "\<exists>e. extractGeminiOutput_generate parse d = Inr e \<and> ex_raw e = d"
  by (simp add: extract_generate_value)

lemma analyze_extract_total: "\<exists>e. extract_analyze parse d = Inr e \<and> ex_raw e = d"
  by (simp add: extract_analyze_value)


lemma hello_unwrapped:
  "extractGeminiOutput_server parse hello_response
     = Inr \<lparr>ex_raw = hello_response, ex_text = JStr (ustr ''hello''), ex_parsed = JNull\<rparr>"
  "extractGeminiOutput_generate parse hello_response
     = Inr \<lparr>ex_raw = hello_response, ex_text = JStr (ustr ''hello''), ex_parsed = JNull\<rparr>"
  "extract_analyze parse hello_response
     = Inr \<lparr>ex_raw = hello_response, ex_text = JStr (ustr ''hello''), ex_parsed = JNull\<rparr>"
proof -
  have p: "first_present (text_candidates hello_response) = JStr (ustr ''hello'')"
    by (simp add: hello_candidates first_present_def nullish_def)
  have q: "first_truthy (text_candidates hello_response) = JStr (ustr ''hello'')"
    by (simp add: hello_candidates first_truthy_def ustr_def)
  have t: "truthy hello_response" "truthy (JStr (ustr ''hello''))"
    by (simp_all add: hello_response_def ustr_def)
  show "extractGeminiOutput_server parse hello_response
     = Inr \<lparr>ex_raw = hello_response, ex_text = JStr (ustr ''hello''), ex_parsed = JNull\<rparr>"
    using t by (simp add: extract_server_value p hello_plain)
  show "extractGeminiOutput_generate parse hello_response
     = Inr \<lparr>ex_raw = hello_response, ex_text = JStr (ustr ''hello''), ex_parsed = JNull\<rparr>"
    by (simp add: extract_generate_value p hello_plain)
  show "extract_analyze parse hello_response
     = Inr \<lparr>ex_raw = hello_response, ex_text = JStr (ustr ''hello''), ex_parsed = JNull\<rparr>"
    by (simp add: extract_analyze_value q hello_plain)
qed

lemma fixed_upstream_answer:
  "fixed_upstream st data c = Some \<lparr>up_status = st, up_json = Some data\<rparr>"
  by (simp add: fixed_upstream_def)



section \<open>Claims about the generation route\<close>

text \<open>
  The Process Server's route does reject every body whose \<open>prompt\<close> is missing or is
  not a non-empty string.
\<close>

lemma generate_route_rejects_bad_prompt:
  assumes "\<not> nullish body"
    and "\<not> truthy (path_member body (ustr ''prompt''))
         \<or> js_typeof (path_member body (ustr ''prompt'')) \<noteq> ''string''"
  shows "generate_route parse fetch key body
         = error_response [] 400 ''Missing 'prompt' string in request body.''"
  using assms
  by (auto simp add: generate_route_def get_member_value destructure_value bind_def try_catch_def)

text \<open>
  C3 fails on the Stateless Handler, which tests only \<open>!prompt\<close>: a POST whose body is
  \<open>{prompt: 42}\<close> is forwarded upstream and answered with the upstream's status and the
  \<open>{status, extracted, raw}\<close> envelope, while the Process Server's route answers the
  same body with 400 and an error field.
\<close>

theorem numeric_prompt_passes_the_handler:
  "generate_handler sample_parse (fixed_upstream 200 hello_response)
       \<lparr>GEMINI_API_KEY = Some (ustr ''k''), PORT = None\<rparr>
       \<lparr>req_method = ustr ''POST'', req_body = JObj [(ustr ''prompt'', JNum (Fin 42))]\<rparr>
     = json_response cors_headers 200
         (envelope 200
            \<lparr>ex_raw = hello_response, ex_text = JStr (ustr ''hello''), ex_parsed = JNull\<rparr>
            hello_response)
   \<and> generate_route sample_parse (fixed_upstream 200 hello_response) (JStr (ustr ''k''))
       (JObj [(ustr ''prompt'', JNum (Fin 42))])
     = error_response [] 400 ''Missing 'prompt' string in request body.''"
proof -
  have p: "first_present (text_candidates hello_response) = JStr (ustr ''hello'')"
    by (simp add: hello_candidates first_present_def nullish_def)
  have e: "extractGeminiOutput_generate sample_parse hello_response
       = Inr \<lparr>ex_raw = hello_response, ex_text = JStr (ustr ''hello''), ex_parsed = JNull\<rparr>"
    by (simp add: extract_generate_value p hello_plain)
  have n: "\<not> nullish (JObj [(ustr ''prompt'', JNum (Fin 42))])"
    by (simp add: nullish_def)
  have k: "ustr ''k'' \<noteq> []" "ustr ''POST'' \<noteq> ustr ''OPTIONS''"
    by (simp_all add: ustr_def)
  have "generate_handler sample_parse (fixed_upstream 200 hello_response)
       \<lparr>GEMINI_API_KEY = Some (ustr ''k''), PORT = None\<rparr>
       \<lparr>req_method = ustr ''POST'', req_body = JObj [(ustr ''prompt'', JNum (Fin 42))]\<rparr>
     = json_response cors_headers 200
         (envelope 200
            \<lparr>ex_raw = hello_response, ex_text = JStr (ustr ''hello''), ex_parsed = JNull\<rparr>
            hello_response)"
    by (simp add: generate_handler_def env_value_def k get_member_value [OF n]
        destructure_value [OF n] bind_def try_catch_def relay_unfold e fixed_upstream_def)
  moreover have "generate_route sample_parse (fixed_upstream 200 hello_response) (JStr (ustr ''k''))
       (JObj [(ustr ''prompt'', JNum (Fin 42))])
     = error_response [] 400 ''Missing 'prompt' string in request body.''"
    by (rule generate_route_rejects_bad_prompt [OF n]) simp
  ultimately show ?thesis by simp
qed

theorem numeric_prompt_passes_the_handler_witness:
  "res_status (generate_handler sample_parse (fixed_upstream 200 hello_response)
       \<lparr>GEMINI_API_KEY = Some (ustr ''k''), PORT = None\<rparr>
       \<lparr>req_method = ustr ''POST'', req_body = JObj [(ustr ''prompt'', JNum (Fin 42))]\<rparr>)
     = 200
   \<and> \<not> has_error_field (generate_handler sample_parse (fixed_upstream 200 hello_response)
       \<lparr>GEMINI_API_KEY = Some (ustr ''k''), PORT = None\<rparr>
       \<lparr>req_method = ustr ''POST'', req_body = JObj [(ustr ''prompt'', JNum (Fin 42))]\<rparr>)
   \<and> res_status (generate_route sample_parse (fixed_upstream 200 hello_response)
       (JStr (ustr ''k'')) (JObj [(ustr ''prompt'', JNum (Fin 42))]))
     = 400
   \<and> has_error_field (generate_route sample_parse (fixed_upstream 200 hello_response)
       (JStr (ustr ''k'')) (JObj [(ustr ''prompt'', JNum (Fin 42))]))"
  using numeric_prompt_passes_the_handler
  by (simp add: json_response_def error_response_def has_error_field_def own_keys_def
      envelope_def ustr_def)

section \<open>The document-analysis request as a value\<close>

lemma bind_Inr: "bind (Inr x) f = f x"
  by (simp add: bind_def)

lemma bind_Inl: "bind (Inl e) f = Inl e"
  by (simp add: bind_def)



lemma is_text_part_not_nullish: "is_text_part p \<Longrightarrow> \<not> nullish p"
  by (cases p) (simp_all add: nullish_def)






lemma post_is_not_options: "ustr ''POST'' \<noteq> ustr ''OPTIONS''"
  by (simp add: ustr_def)

lemma route_relays:
  "analyze_call promptText_server [] key body = Inr (Inr c) \<Longrightarrow>
   analyzeDocument_route parse fetch key body
   = try_catch (relay (extractGeminiOutput_server parse) [] fetch c) (proxy_failed [])"
  by (simp add: analyzeDocument_route_def bind_Inr)







text \<open>A \<open>null\<close> element makes the mapping throw, and nothing is sent.\<close>

lemma null_text_part_is_thrown:
  "list_ex nullish ps \<Longrightarrow>
   mapM (\<lambda>p. bind (get_member p (ustr ''text'')) (\<lambda>t. Inr (JObj [(ustr ''text'', t)])))
        (map (\<lambda>p. if js_typeof p = ''string'' then JObj [(ustr ''text'', p)] else p) ps)
   = Inl TypeError"
proof (induction ps)
  case Nil
  then show ?case by simp
next
  case (Cons p ps)
  show ?case
  proof (cases "nullish p")
    case True
    then show ?thesis by (auto simp add: nullish_def bind_Inl)
  next
    case False
    with Cons.prems have "list_ex nullish ps" by simp
    with Cons.IH False show ?thesis
      by (simp add: bind_Inr bind_Inl get_member_value)
  qed
qed

section \<open>Claims about the document-analysis request\<close>








section \<open>The shapes of a response\<close>

lemma try_catch_Inr: "try_catch (Inr x) h = x"
  by (simp add: try_catch_def)

lemma try_catch_Inl: "try_catch (Inl e) h = h e"
  by (simp add: try_catch_def)

lemma not_non_error:
  "\<not> non_error (error_response hs n msg)"
  "\<not> non_error (proxy_failed hs e)"
  "\<not> non_error \<lparr>res_headers = hs, res_status = n, res_body = None\<rparr>"
  by (simp_all add: non_error_def error_response_def proxy_failed_def json_response_def ustr_def)

lemma error_response_fields:
  "res_status (error_response hs n msg) = n" "has_error_field (error_response hs n msg)"
  by (simp_all add: error_response_def json_response_def has_error_field_def own_keys_def)

lemma relayed_raw_twice:
  assumes "\<And>d. \<exists>e. unwrap d = Inr e \<and> ex_raw e = d"
    and "non_error (try_catch (relay unwrap hs fetch c) (proxy_failed hs'))"
  shows "nested_raw (try_catch (relay unwrap hs fetch c) (proxy_failed hs'))
           = top_raw (try_catch (relay unwrap hs fetch c) (proxy_failed hs'))
       \<and> (\<exists>c' r. fetch c' = Some r
             \<and> up_json r = Some (top_raw (try_catch (relay unwrap hs fetch c) (proxy_failed hs'))))"
proof -
  from relay_cases [of unwrap hs fetch c, OF assms(1)]
  consider e where "relay unwrap hs fetch c = Inl e"
    | r data ex where "fetch c = Some r" "up_json r = Some data" "ex_raw ex = data"
        "relay unwrap hs fetch c
           = Inr (json_response hs (up_status r) (envelope (up_status r) ex data))"
    by blast
  then show ?thesis
  proof cases
    case 1
    with assms(2) show ?thesis by (simp add: try_catch_Inl not_non_error)
  next
    case 2
    have "nested_raw (json_response hs (up_status r) (envelope (up_status r) ex data)) = data"
      "top_raw (json_response hs (up_status r) (envelope (up_status r) ex data)) = data"
      using 2(3) by (simp_all add: nested_raw_def top_raw_def json_response_def envelope_fields)
    with 2 show ?thesis by (auto simp add: try_catch_Inr)
  qed
qed

lemma generate_route_shape:
  "(\<exists>n msg. generate_route parse fetch key body = error_response [] n msg)
   \<or> (\<exists>e. generate_route parse fetch key body = proxy_failed [] e)
   \<or> (\<exists>c. generate_route parse fetch key body
            = try_catch (relay (extractGeminiOutput_server parse) [] fetch c) (proxy_failed []))"
proof (cases "nullish body")
  case True
  then show ?thesis
    by (auto simp add: generate_route_def get_member_nullish bind_Inl try_catch_Inl)
next
  case False
  then show ?thesis
    by (auto simp add: generate_route_def get_member_value destructure_value bind_Inr
        try_catch_Inr)
qed

lemma generate_handler_shape:
  "(\<exists>n. generate_handler parse fetch env req
          = \<lparr>res_headers = cors_headers, res_status = n, res_body = None\<rparr>)
   \<or> (\<exists>n msg. generate_handler parse fetch env req = error_response cors_headers n msg)
   \<or> (\<exists>e. generate_handler parse fetch env req = proxy_failed cors_headers e)
   \<or> (\<exists>c. generate_handler parse fetch env req
            = try_catch (relay (extractGeminiOutput_generate parse) cors_headers fetch c)
                (proxy_failed cors_headers))"
proof (cases "nullish (req_body req)")
  case True
  then show ?thesis
    by (auto simp add: generate_handler_def get_member_nullish bind_Inl try_catch_Inl Let_def)
next
  case False
  then show ?thesis
    by (auto simp add: generate_handler_def get_member_value destructure_value bind_Inr
        try_catch_Inr Let_def)
qed

lemma analyze_call_cases:
  "(\<exists>e. analyze_call p hs k b = Inl e)
   \<or> (\<exists>n msg. analyze_call p hs k b = Inr (Inl (error_response hs n msg)))
   \<or> (\<exists>c. analyze_call p hs k b = Inr (Inr c))"
proof (cases "nullish b")
  case True
  then show ?thesis
    by (auto simp add: analyze_call_def get_member_nullish bind_Inl)
next
  case False
  show ?thesis
  proof (cases "analyze_parts p (path_member b (ustr ''fileBase64''))
                  (path_member b (ustr ''mimeType''))
                  (if path_member b (ustr ''textParts'') = JUndefined then JArr []
                   else path_member b (ustr ''textParts''))")
    case (Inl e)
    with False show ?thesis
      by (auto simp add: analyze_call_def get_member_value destructure_value bind_Inr bind_Inl)
  next
    case (Inr ps)
    with False show ?thesis
      by (auto simp add: analyze_call_def get_member_value destructure_value bind_Inr)
  qed
qed

lemma analyzeDocument_route_shape:
  "(\<exists>n msg. analyzeDocument_route parse fetch key body = error_response [] n msg)
   \<or> (\<exists>e. analyzeDocument_route parse fetch key body = proxy_failed [] e)
   \<or> (\<exists>c. analyzeDocument_route parse fetch key body
            = try_catch (relay (extractGeminiOutput_server parse) [] fetch c) (proxy_failed []))"
proof -
  from analyze_call_cases [of promptText_server "[]" key body]
  consider (thrown) e where "analyze_call promptText_server [] key body = Inl e"
    | (early) n msg where
        "analyze_call promptText_server [] key body = Inr (Inl (error_response [] n msg))"
    | (call) c where "analyze_call promptText_server [] key body = Inr (Inr c)"
    by blast
  then show ?thesis
  proof cases
    case thrown
    then have "analyzeDocument_route parse fetch key body = proxy_failed [] e"
      by (simp add: analyzeDocument_route_def bind_Inl try_catch_Inl)
    then show ?thesis by blast
  next
    case early
    then have "analyzeDocument_route parse fetch key body = error_response [] n msg"
      by (simp add: analyzeDocument_route_def bind_Inr try_catch_Inr)
    then show ?thesis by blast
  next
    case call
    then show ?thesis using route_relays by blast
  qed
qed

lemma analyzeDocument_handler_shape:
  "(\<exists>n. analyzeDocument_handler parse fetch env req
          = \<lparr>res_headers = cors_headers, res_status = n, res_body = None\<rparr>)
   \<or> (\<exists>n msg. analyzeDocument_handler parse fetch env req = error_response cors_headers n msg)
   \<or> (\<exists>e. analyzeDocument_handler parse fetch env req = proxy_failed cors_headers e)
   \<or> (\<exists>c. analyzeDocument_handler parse fetch env req
            = try_catch (relay (extract_analyze parse) cors_headers fetch c)
                (proxy_failed cors_headers))"
proof -
  let ?k = "env_value (GEMINI_API_KEY env)"
  consider (options) "req_method req = ustr ''OPTIONS''"
    | (other) "req_method req \<noteq> ustr ''OPTIONS''" "req_method req \<noteq> ustr ''POST''"
    | (nokey) "req_method req = ustr ''POST''" "\<not> truthy ?k"
    | (post) "req_method req = ustr ''POST''" "truthy ?k"
    by blast
  then show ?thesis
  proof cases
    case options
    then show ?thesis by (simp add: analyzeDocument_handler_def)
  next
    case other
    then have "analyzeDocument_handler parse fetch env req
               = error_response cors_headers 405 ''Method not allowed''"
      by (simp add: analyzeDocument_handler_def)
    then show ?thesis by blast
  next
    case nokey
    then have "analyzeDocument_handler parse fetch env req
               = error_response cors_headers 500 ''GEMINI_API_KEY not set''"
      by (simp add: analyzeDocument_handler_def post_is_not_options)
    then show ?thesis by blast
  next
    case post
    then have h: "analyzeDocument_handler parse fetch env req
        = try_catch
            (bind (analyze_call promptText_handler cors_headers ?k (req_body req)) (\<lambda>c.
               case c of Inl early \<Rightarrow> Inr early
               | Inr call \<Rightarrow> relay (extract_analyze parse) cors_headers fetch call))
            (proxy_failed cors_headers)"
      by (simp add: analyzeDocument_handler_def post_is_not_options)
    from analyze_call_cases [of promptText_handler cors_headers ?k "req_body req"]
    consider (thrown) e where
        "analyze_call promptText_handler cors_headers ?k (req_body req) = Inl e"
      | (early) n msg where
          "analyze_call promptText_handler cors_headers ?k (req_body req)
           = Inr (Inl (error_response cors_headers n msg))"
      | (call) c where
          "analyze_call promptText_handler cors_headers ?k (req_body req) = Inr (Inr c)"
      by blast
    then show ?thesis
    proof cases
      case thrown
      then have "analyzeDocument_handler parse fetch env req = proxy_failed cors_headers e"
        by (simp add: h bind_Inl try_catch_Inl)
      then show ?thesis by blast
    next
      case early
      then have "analyzeDocument_handler parse fetch env req = error_response cors_headers n msg"
        by (simp add: h bind_Inr try_catch_Inr)
      then show ?thesis by blast
    next
      case call
      then have "analyzeDocument_handler parse fetch env req
          = try_catch (relay (extract_analyze parse) cors_headers fetch c)
              (proxy_failed cors_headers)"
        by (simp add: h bind_Inr)
      then show ?thesis by blast
    qed
  qed
qed

section \<open>Claims about the credential and the envelope\<close>



text \<open>
  C8, as amended. When the credential is absent the Process Server exits with code 1
  at start-up, before it listens, and answers no request; a Stateless Handler starts
  all the same and answers every POST with status 500 and an error envelope. (Its
  method checks come first: without a credential an OPTIONS request still gets 200 and
  any other method 405.)
\<close>

theorem missing_credential:
  assumes "GEMINI_API_KEY env = None"
  shows "server_startup env = Exited 1
       \<and> process_server parse fetch env route = None
       \<and> (req_method req = ustr ''POST'' \<longrightarrow>
            res_status (generate_handler parse fetch env req) = 500
          \<and> has_error_field (generate_handler parse fetch env req)
          \<and> res_status (analyzeDocument_handler parse fetch env req) = 500
          \<and> has_error_field (analyzeDocument_handler parse fetch env req))
       \<and> (req_method req = ustr ''OPTIONS'' \<longrightarrow>
            res_status (generate_handler parse fetch env req) = 200
          \<and> res_status (analyzeDocument_handler parse fetch env req) = 200)
       \<and> (req_method req \<noteq> ustr ''OPTIONS'' \<and> req_method req \<noteq> ustr ''POST'' \<longrightarrow>
            res_status (generate_handler parse fetch env req) = 405
          \<and> res_status (analyzeDocument_handler parse fetch env req) = 405)"
  using assms
  by (simp add: server_startup_def process_server_def env_value_def generate_handler_def
      analyzeDocument_handler_def post_is_not_options error_response_fields)

theorem missing_credential_witness:
  "server_startup \<lparr>GEMINI_API_KEY = None, PORT = None\<rparr> = Exited 1
   \<and> process_server sample_parse (fixed_upstream 200 hello_response)
        \<lparr>GEMINI_API_KEY = None, PORT = None\<rparr> Health = None
   \<and> res_status (generate_handler sample_parse (fixed_upstream 200 hello_response)
        \<lparr>GEMINI_API_KEY = None, PORT = None\<rparr>
        \<lparr>req_method = ustr ''POST'', req_body = JObj [(ustr ''prompt'', JStr (ustr ''hi''))]\<rparr>)
      = 500
   \<and> res_status (analyzeDocument_handler sample_parse (fixed_upstream 200 hello_response)
        \<lparr>GEMINI_API_KEY = None, PORT = None\<rparr>
        \<lparr>req_method = ustr ''POST'', req_body = JObj [(ustr ''prompt'', JStr (ustr ''hi''))]\<rparr>)
      = 500"
  using missing_credential
    [of "\<lparr>GEMINI_API_KEY = None, PORT = None\<rparr>" sample_parse
        "fixed_upstream 200 hello_response" Health
        "\<lparr>req_method = ustr ''POST'', req_body = JObj [(ustr ''prompt'', JStr (ustr ''hi''))]\<rparr>"]
  by simp

text \<open>
  C8 as stated fails for an invocation that is not a POST: without a credential the
  generation handler answers an OPTIONS request with a bare 200.
\<close>

theorem preflight_without_credential:
  "generate_handler sample_parse (fixed_upstream 200 hello_response)
     \<lparr>GEMINI_API_KEY = None, PORT = None\<rparr>
     \<lparr>req_method = ustr ''OPTIONS'', req_body = JUndefined\<rparr>
   = \<lparr>res_headers = cors_headers, res_status = 200, res_body = None\<rparr>"
  by (simp add: generate_handler_def)

text \<open>
  C10. Whatever the request, the environment and the upstream do, a response of one of
  the four handlers that has a body without an \<open>error\<close> field carries the JSON body of
  an upstream answer twice: \<open>extracted.raw\<close> and \<open>raw\<close> are the same value.
\<close>

theorem raw_appears_twice:
  assumes "resp \<in> {generate_route parse fetch key body, generate_handler parse fetch env req,
                    analyzeDocument_route parse fetch key body,
                    analyzeDocument_handler parse fetch env req}"
    and "non_error resp"
  shows "nested_raw resp = top_raw resp
       \<and> (\<exists>c r. fetch c = Some r \<and> up_json r = Some (top_raw resp))"
proof -
  from assms(1) consider
      "resp = generate_route parse fetch key body"
    | "resp = generate_handler parse fetch env req"
    | "resp = analyzeDocument_route parse fetch key body"
    | "resp = analyzeDocument_handler parse fetch env req"
    by blast
  then show ?thesis
  proof cases
    case 1
    with assms(2) generate_route_shape [of parse fetch key body]
    obtain c where "resp = try_catch (relay (extractGeminiOutput_server parse) [] fetch c)
                             (proxy_failed [])"
      by (auto simp add: not_non_error)
    with assms(2) show ?thesis
      using relayed_raw_twice [of "extractGeminiOutput_server parse" "[]" fetch c "[]"]
        server_extract_total by simp
  next
    case 2
    with assms(2) generate_handler_shape [of parse fetch env req]
    obtain c where "resp = try_catch (relay (extractGeminiOutput_generate parse) cors_headers
                             fetch c) (proxy_failed cors_headers)"
      by (auto simp add: not_non_error)
    with assms(2) show ?thesis
      using relayed_raw_twice
        [of "extractGeminiOutput_generate parse" cors_headers fetch c cors_headers]
        generate_extract_total by simp
  next
    case 3
    with assms(2) analyzeDocument_route_shape [of parse fetch key body]
    obtain c where "resp = try_catch (relay (extractGeminiOutput_server parse) [] fetch c)
                             (proxy_failed [])"
      by (auto simp add: not_non_error)
    with assms(2) show ?thesis
      using relayed_raw_twice [of "extractGeminiOutput_server parse" "[]" fetch c "[]"]
        server_extract_total by simp
  next
    case 4
    with assms(2) analyzeDocument_handler_shape [of parse fetch env req]
    obtain c where "resp = try_catch (relay (extract_analyze parse) cors_headers fetch c)
                             (proxy_failed cors_headers)"
      by (auto simp add: not_non_error)
    with assms(2) show ?thesis
      using relayed_raw_twice [of "extract_analyze parse" cors_headers fetch c cors_headers]
        analyze_extract_total by simp
  qed
qed

theorem raw_appears_twice_witness:
  "non_error (generate_route sample_parse (fixed_upstream 503 hello_response) (JStr (ustr ''k''))
                (JObj [(ustr ''prompt'', JStr (ustr ''hi''))]))
   \<and> nested_raw (generate_route sample_parse (fixed_upstream 503 hello_response)
                   (JStr (ustr ''k'')) (JObj [(ustr ''prompt'', JStr (ustr ''hi''))]))
     = top_raw (generate_route sample_parse (fixed_upstream 503 hello_response)
                  (JStr (ustr ''k'')) (JObj [(ustr ''prompt'', JStr (ustr ''hi''))]))
   \<and> top_raw (generate_route sample_parse (fixed_upstream 503 hello_response)
                (JStr (ustr ''k'')) (JObj [(ustr ''prompt'', JStr (ustr ''hi''))]))
     = hello_response"
proof -
  let ?b = "JObj [(ustr ''prompt'', JStr (ustr ''hi''))]"
  let ?r = "generate_route sample_parse (fixed_upstream 503 hello_response) (JStr (ustr ''k'')) ?b"
  have n: "\<not> nullish ?b" by (simp add: nullish_def)
  have p: "path_member ?b (ustr ''prompt'') = JStr (ustr ''hi'')"
    "path_member ?b (ustr ''model'') = JUndefined" "ustr ''hi'' \<noteq> []"
    by (simp_all add: ustr_def)
  have v: "?r = json_response [] 503
                  (envelope 503 \<lparr>ex_raw = hello_response, ex_text = JStr (ustr ''hello''),
                                 ex_parsed = JNull\<rparr> hello_response)"
    by (simp add: generate_route_def get_member_value [OF n] destructure_value [OF n] bind_Inr
        relay_unfold fixed_upstream_answer hello_unwrapped try_catch_Inr p)
  have e: "non_error ?r"
    by (simp add: v non_error_def json_response_def envelope_fields)
  have t: "top_raw ?r = hello_response"
    by (simp add: v top_raw_def json_response_def envelope_fields)
  from raw_appears_twice [of ?r sample_parse "fixed_upstream 503 hello_response"
      "JStr (ustr ''k'')" ?b _ _, OF _ e]
  have "nested_raw ?r = top_raw ?r" by simp
  with e t show ?thesis by simp
qed

end
